theory Spec2Isabelle
  imports Complex_Main "HOL-Library.Word" "HOL-Library.Log_Nat"
begin

unbundle bit_operations_syntax

section \<open>Go values used by the collector\<close>

text \<open>
  \<^verbatim>\<open>githubql.Int\<close> is Go's \<^verbatim>\<open>int32\<close>, \<^verbatim>\<open>githubql.String\<close> is \<^verbatim>\<open>string\<close>,
  \<^verbatim>\<open>githubql.DateTime\<close> wraps \<^verbatim>\<open>time.Time\<close>. A \<^verbatim>\<open>float64\<close> that results from
  converting an integer is a real number; the conversion rounds to a 53-bit significand,
  to nearest, ties to even.
\<close>

type_synonym int32 = "32 word"
type_synonym int64 = "64 word"
type_synonym uint64 = "64 word"
type_synonym float64 = real

definition round_float64 :: "int \<Rightarrow> int" where
  "round_float64 n =
     (if \<bar>n\<bar> < 2 ^ 53 then n
      else
        let e = nat (bitlen \<bar>n\<bar>) - 53;
            q = \<bar>n\<bar> div 2 ^ e;
            r = \<bar>n\<bar> mod 2 ^ e;
            h = 2 ^ (e - 1);
            q' = (if h < r \<or> (r = h \<and> odd q) then q + 1 else q)
        in sgn n * q' * 2 ^ e)"

definition float64_of_int32 :: "int32 \<Rightarrow> float64" where
  "float64_of_int32 x = real_of_int (round_float64 (sint x))"

definition float64_of_int64 :: "int64 \<Rightarrow> float64" where
  "float64_of_int64 x = real_of_int (round_float64 (sint x))"

subsection \<open>time.Time and its Unix method\<close>

text \<open>
  Go's \<^verbatim>\<open>time.Time\<close> holds \<^verbatim>\<open>wall uint64\<close> and \<^verbatim>\<open>ext int64\<close> (the location plays
  no part in \<^verbatim>\<open>Unix\<close>). When the top bit of \<^verbatim>\<open>wall\<close> is clear, \<^verbatim>\<open>ext\<close> is the number
  of seconds since January 1 of year 1; the zero value of the struct is that instant.
\<close>

record Time =
  wall :: uint64
  ext :: int64

definition hasMonotonic :: uint64 where
  "hasMonotonic = push_bit 63 1"

definition nsecShift :: nat where
  "nsecShift = 30"

definition secondsPerDay :: int where
  "secondsPerDay = 24 * 60 * 60"

definition unixToInternal :: int64 where
  "unixToInternal =
     word_of_int ((1969 * 365 + 1969 div 4 - 1969 div 100 + 1969 div 400) * secondsPerDay)"

definition internalToUnix :: int64 where
  "internalToUnix = - unixToInternal"

definition wallToInternal :: int64 where
  "wallToInternal =
     word_of_int ((1884 * 365 + 1884 div 4 - 1884 div 100 + 1884 div 400) * secondsPerDay)"

definition sec :: "Time \<Rightarrow> int64" where
  "sec t =
     (if wall t AND hasMonotonic \<noteq> 0
      then wallToInternal + drop_bit (nsecShift + 1) (push_bit 1 (wall t))
      else ext t)"

definition Unix :: "Time \<Rightarrow> int64" where
  "Unix t = sec t + internalToUnix"

definition zero_Time :: Time where
  "zero_Time = \<lparr>wall = 0, ext = 0\<rparr>"

section \<open>Prometheus descriptors and constant metrics\<close>

text \<open>
  \<^verbatim>\<open>BuildFQName\<close> joins the non-empty parts with an underscore; \<^verbatim>\<open>NewDesc\<close> keeps the
  name, the help text and the variable label names (all constant label sets are nil in this
  program); \<^verbatim>\<open>MustNewConstMetric\<close> panics when the number of label values differs from
  the number of variable labels of the descriptor.
\<close>

definition BuildFQName :: "string \<Rightarrow> string \<Rightarrow> string \<Rightarrow> string" where
  "BuildFQName namespace subsystem name =
     (if name = [] then []
      else if namespace \<noteq> [] \<and> subsystem \<noteq> [] then namespace @ ''_'' @ subsystem @ ''_'' @ name
      else if namespace \<noteq> [] then namespace @ ''_'' @ name
      else if subsystem \<noteq> [] then subsystem @ ''_'' @ name
      else name)"

record Desc =
  fqName :: string
  helpText :: string
  variableLabels :: "string list"

definition NewDesc :: "string \<Rightarrow> string \<Rightarrow> string list \<Rightarrow> Desc" where
  "NewDesc n h ls = \<lparr>fqName = n, helpText = h, variableLabels = ls\<rparr>"

datatype ValueType = CounterValue | GaugeValue | UntypedValue

record Metric =
  desc :: Desc
  valType :: ValueType
  val :: float64
  labelValues :: "string list"

datatype panic = errInconsistentCardinality

definition MustNewConstMetric ::
  "Desc \<Rightarrow> ValueType \<Rightarrow> float64 \<Rightarrow> string list \<Rightarrow> panic + Metric" where
  "MustNewConstMetric d vt v lvs =
     (if length (variableLabels d) \<noteq> length lvs then Inl errInconsistentCardinality
      else Inr \<lparr>desc = d, valType = vt, val = v, labelValues = lvs\<rparr>)"

section \<open>The query result\<close>

text \<open>
  The structs of \<^verbatim>\<open>organizationQuery\<close>. Every \<^verbatim>\<open>struct { TotalCount githubql.Int }\<close>
  is a \<open>Connection\<close>.
\<close>

record Connection =
  TotalCount :: int32

record repositoryNode =
  Name :: string
  DiskUsage :: int32
  CreatedAt :: Time
  PushedAt :: Time
  Stargazers :: Connection
  Watchers :: Connection
  Forks :: Connection
  IssuesOpen :: Connection
  IssuesClosed :: Connection
  PullRequestsOpen :: Connection
  PullRequestsClosed :: Connection
  PullRequestsMerged :: Connection

record repositories =
  Nodes :: "repositoryNode list"

record organization =
  Login :: string
  Repositories :: repositories

record rateLimit =
  Limit :: int32
  Remaining :: int32
  ResetAt :: Time

record organizationQuery =
  Organization :: organization
  RateLimit :: rateLimit

text \<open>The zero value of \<^verbatim>\<open>var rateLimit rateLimit\<close>.\<close>

definition zero_rateLimit :: rateLimit where
  "zero_rateLimit = \<lparr>Limit = 0, Remaining = 0, ResetAt = zero_Time\<rparr>"

section \<open>The world outside the collector\<close>

text \<open>
  A query either fails with a Go error (its message) or fills the query struct. The remote
  service is a state \<open>'s\<close> that every call may change, so two calls for the same
  organization may answer differently. The world holds the two channels the registry hands
  to \<^verbatim>\<open>Collect\<close> and \<^verbatim>\<open>Describe\<close>, the records written to the logger, the state of
  the remote service and the trace of the calls made to it.
\<close>

datatype error = QueryError string

type_synonym 's Client = "'s \<Rightarrow> string \<Rightarrow> (error + organizationQuery) \<times> 's"

datatype logValue = Str string | Err error

type_synonym logRecord = "(string \<times> logValue) list"

record 's world =
  metrics :: "Metric list"
  descs :: "Desc list"
  logged :: "logRecord list"
  srv :: 's
  queries :: "(string \<times> (error + organizationQuery)) list"

text \<open>
  \<^verbatim>\<open>level.Warn(logger).Log(keyvals...)\<close> of go-kit: the record starts with the pair
  level=warn, the key-value pairs of the call follow.
\<close>

definition level_Warn_Log :: "logRecord \<Rightarrow> 's world \<Rightarrow> 's world" where
  "level_Warn_Log keyvals w = w\<lparr>logged := logged w @ [(''level'', Str ''warn'') # keyvals]\<rparr>"

section \<open>The collector\<close>

definition namespace :: string where
  "namespace = ''github''"

record 's OrganizationCollector =
  client :: "'s Client"
  organizations :: "string list"
  created :: Desc
  diskUsage :: Desc
  forks :: Desc
  issues :: Desc
  pullRequests :: Desc
  pushed :: Desc
  stargazers :: Desc
  watchers :: Desc
  rateLimit :: Desc
  rateLimitRemaining :: Desc
  rateLimitReset :: Desc

definition NewOrganizationCollector :: "'s Client \<Rightarrow> string list \<Rightarrow> 's OrganizationCollector" where
  "NewOrganizationCollector cl orgs =
     \<lparr>client = cl,
      organizations = orgs,
      created = NewDesc (BuildFQName namespace ''repo'' ''created'')
        ''Unix timestamp of when the repo was created''
        [''owner'', ''name''],
      diskUsage = NewDesc (BuildFQName namespace ''repo'' ''disk_usage_bytes'')
        ''Bytes of the repository used on disk''
        [''owner'', ''name''],
      forks = NewDesc (BuildFQName namespace ''repo'' ''forks'')
        ''Number of forks of that repo''
        [''owner'', ''name''],
      issues = NewDesc (BuildFQName namespace ''repo'' ''issues'')
        ''Number of issues with a state of open or closed''
        [''owner'', ''name'', ''state''],
      pullRequests = NewDesc (BuildFQName namespace ''repo'' ''pull_requests'')
        ''Number of pull requests with a state of open, closed or merged''
        [''owner'', ''name'', ''state''],
      pushed = NewDesc (BuildFQName namespace ''repo'' ''pushed'')
        ''Unix timestamp of then the repo was pushed to the last time''
        [''onwer'', ''name''],
      stargazers = NewDesc (BuildFQName namespace ''repo'' ''stargazers'')
        ''Number of users that star the repo''
        [''onwer'', ''name''],
      watchers = NewDesc (BuildFQName namespace ''repo'' ''watchers'')
        ''Number of users that watch the repo''
        [''onwer'', ''name''],
      rateLimit = NewDesc (BuildFQName namespace ''rate_limit'' ''limit'')
        ''The rate limit''
        [],
      rateLimitRemaining = NewDesc (BuildFQName namespace ''rate_limit'' ''remaining'')
        ''The remaining requests left until hitting the rate limit''
        [],
      rateLimitReset = NewDesc (BuildFQName namespace ''rate_limit'' ''reset_seconds'')
        ''Unix timestamp when the rate limit will be reset''
        []\<rparr>"

subsection \<open>Describe\<close>

definition Describe :: "'s OrganizationCollector \<Rightarrow> 's world \<Rightarrow> 's world" where
  "Describe c w =
     w\<lparr>descs := descs w @
       [created c, diskUsage c, forks c, issues c, pullRequests c, pushed c, stargazers c,
        watchers c, rateLimit c, rateLimitRemaining c, rateLimitReset c]\<rparr>"

subsection \<open>Collect\<close>

text \<open>
  \<open>send d v lvs\<close> is \<^verbatim>\<open>ch <- prometheus.MustNewConstMetric(d, prometheus.GaugeValue, v, lvs...)\<close>:
  the metric is built first, which may panic, and then sent on the channel.
  \<open>seq\<close> runs statements in order and stops at the first panic.
\<close>

definition send :: "Desc \<Rightarrow> float64 \<Rightarrow> string list \<Rightarrow> 's world \<Rightarrow> panic + 's world" where
  "send d v lvs w =
     (case MustNewConstMetric d GaugeValue v lvs of
        Inl p \<Rightarrow> Inl p
      | Inr m \<Rightarrow> Inr (w\<lparr>metrics := metrics w @ [m]\<rparr>))"

fun seq :: "('a \<Rightarrow> 'e + 'a) list \<Rightarrow> 'a \<Rightarrow> 'e + 'a" where
  "seq [] w = Inr w"
| "seq (f # fs) w = (case f w of Inl e \<Rightarrow> Inl e | Inr w' \<Rightarrow> seq fs w')"

text \<open>The call \<^verbatim>\<open>c.client.Query(ctx, &query, variables)\<close> for one organization.\<close>

definition Query ::
  "'s OrganizationCollector \<Rightarrow> string \<Rightarrow> 's world \<Rightarrow> (error + organizationQuery) \<times> 's world" where
  "Query c org w =
     (case client c (srv w) org of
        (r, s') \<Rightarrow> (r, w\<lparr>srv := s', queries := queries w @ [(org, r)]\<rparr>))"

text \<open>The body of the loop over \<^verbatim>\<open>query.Organization.Repositories.Nodes\<close>.\<close>

definition collect_repo ::
  "'s OrganizationCollector \<Rightarrow> organizationQuery \<Rightarrow> repositoryNode \<Rightarrow> 's world \<Rightarrow> panic + 's world" where
  "collect_repo c query repo =
     seq
      [send (created c) (float64_of_int64 (Unix (CreatedAt repo)))
         [Login (Organization query), Name repo],
       send (diskUsage c) (float64_of_int32 (DiskUsage repo))
         [Login (Organization query), Name repo],
       send (forks c) (float64_of_int32 (TotalCount (Forks repo)))
         [Login (Organization query), Name repo],
       send (issues c) (float64_of_int32 (TotalCount (IssuesOpen repo)))
         [Login (Organization query), Name repo, ''open''],
       send (issues c) (float64_of_int32 (TotalCount (IssuesClosed repo)))
         [Login (Organization query), Name repo, ''closed''],
       send (pullRequests c) (float64_of_int32 (TotalCount (PullRequestsOpen repo)))
         [Login (Organization query), Name repo, ''open''],
       send (pullRequests c) (float64_of_int32 (TotalCount (PullRequestsClosed repo)))
         [Login (Organization query), Name repo, ''closed''],
       send (pullRequests c) (float64_of_int32 (TotalCount (PullRequestsMerged repo)))
         [Login (Organization query), Name repo, ''merged''],
       send (pushed c) (float64_of_int64 (Unix (PushedAt repo)))
         [Login (Organization query), Name repo],
       send (stargazers c) (float64_of_int32 (TotalCount (Stargazers repo)))
         [Login (Organization query), Name repo],
       send (watchers c) (float64_of_int32 (TotalCount (Watchers repo)))
         [Login (Organization query), Name repo]]"

text \<open>
  The loop over \<^verbatim>\<open>c.organizations\<close>. It is left either by the \<^verbatim>\<open>return\<close> after a
  failed query (\<open>Returned\<close>) or at the end of the list (\<open>Completed\<close>, with the value of
  the local variable \<^verbatim>\<open>rateLimit\<close>).
\<close>

datatype 's loop_exit = Returned "'s world" | Completed rateLimit "'s world"

fun collect_orgs ::
  "'s OrganizationCollector \<Rightarrow> string list \<Rightarrow> rateLimit \<Rightarrow> 's world \<Rightarrow> panic + 's loop_exit" where
  "collect_orgs c [] rl w = Inr (Completed rl w)"
| "collect_orgs c (org # orgs) rl w =
     (case Query c org w of
        (Inl err, w') \<Rightarrow>
          Inr (Returned
            (level_Warn_Log
              [(''msg'', Str ''failed to execute organization query successfully''),
               (''err'', Err err)] w'))
      | (Inr query, w') \<Rightarrow>
          (case seq (map (collect_repo c query) (Nodes (Repositories (Organization query)))) w' of
             Inl p \<Rightarrow> Inl p
           | Inr w'' \<Rightarrow> collect_orgs c orgs (RateLimit query) w''))"

definition Collect :: "'s OrganizationCollector \<Rightarrow> 's world \<Rightarrow> panic + 's world" where
  "Collect c w =
     (case collect_orgs c (organizations c) zero_rateLimit w of
        Inl p \<Rightarrow> Inl p
      | Inr (Returned w') \<Rightarrow> Inr w'
      | Inr (Completed rl w') \<Rightarrow>
          seq
           [send (rateLimit c) (float64_of_int32 (Limit rl)) [],
            send (rateLimitRemaining c) (float64_of_int32 (Remaining rl)) [],
            send (rateLimitReset c) (float64_of_int64 (Unix (ResetAt rl))) []]
           w')"

section \<open>What a cycle sends, as lists\<close>

text \<open>
  The metric that \<open>send\<close> puts on the channel, and the metrics of one repository, of one
  organization and of the rate limit, read off the statements of \<^verbatim>\<open>Collect\<close>.
\<close>

definition gauge :: "Desc \<Rightarrow> float64 \<Rightarrow> string list \<Rightarrow> Metric" where
  "gauge d v lvs = \<lparr>desc = d, valType = GaugeValue, val = v, labelValues = lvs\<rparr>"

definition repo_metrics ::
  "'s OrganizationCollector \<Rightarrow> organizationQuery \<Rightarrow> repositoryNode \<Rightarrow> Metric list" where
  "repo_metrics c query repo =
     [gauge (created c) (float64_of_int64 (Unix (CreatedAt repo)))
        [Login (Organization query), Name repo],
      gauge (diskUsage c) (float64_of_int32 (DiskUsage repo))
        [Login (Organization query), Name repo],
      gauge (forks c) (float64_of_int32 (TotalCount (Forks repo)))
        [Login (Organization query), Name repo],
      gauge (issues c) (float64_of_int32 (TotalCount (IssuesOpen repo)))
        [Login (Organization query), Name repo, ''open''],
      gauge (issues c) (float64_of_int32 (TotalCount (IssuesClosed repo)))
        [Login (Organization query), Name repo, ''closed''],
      gauge (pullRequests c) (float64_of_int32 (TotalCount (PullRequestsOpen repo)))
        [Login (Organization query), Name repo, ''open''],
      gauge (pullRequests c) (float64_of_int32 (TotalCount (PullRequestsClosed repo)))
        [Login (Organization query), Name repo, ''closed''],
      gauge (pullRequests c) (float64_of_int32 (TotalCount (PullRequestsMerged repo)))
        [Login (Organization query), Name repo, ''merged''],
      gauge (pushed c) (float64_of_int64 (Unix (PushedAt repo)))
        [Login (Organization query), Name repo],
      gauge (stargazers c) (float64_of_int32 (TotalCount (Stargazers repo)))
        [Login (Organization query), Name repo],
      gauge (watchers c) (float64_of_int32 (TotalCount (Watchers repo)))
        [Login (Organization query), Name repo]]"

definition org_metrics :: "'s OrganizationCollector \<Rightarrow> organizationQuery \<Rightarrow> Metric list" where
  "org_metrics c query =
     concat (map (repo_metrics c query) (Nodes (Repositories (Organization query))))"

definition rate_metrics :: "'s OrganizationCollector \<Rightarrow> rateLimit \<Rightarrow> Metric list" where
  "rate_metrics c rl =
     [gauge (rateLimit c) (float64_of_int32 (Limit rl)) [],
      gauge (rateLimitRemaining c) (float64_of_int32 (Remaining rl)) [],
      gauge (rateLimitReset c) (float64_of_int64 (Unix (ResetAt rl))) []]"

text \<open>
  The exchange with the remote service for a list of organizations: one call per
  organization, in order, until a call fails. It gives the calls with their answers and the
  state the service is left in.
\<close>

type_synonym trace = "(string \<times> (error + organizationQuery)) list"

fun exchange :: "'s Client \<Rightarrow> 's \<Rightarrow> string list \<Rightarrow> trace \<times> 's" where
  "exchange cl s [] = ([], s)"
| "exchange cl s (org # orgs) =
     (case cl s org of
        (Inl e, s') \<Rightarrow> ([(org, Inl e)], s')
      | (Inr q, s') \<Rightarrow> (case exchange cl s' orgs of (tr, s'') \<Rightarrow> ((org, Inr q) # tr, s'')))"

fun succeeded :: "trace \<Rightarrow> organizationQuery list" where
  "succeeded [] = []"
| "succeeded ((org, Inl e) # tr) = succeeded tr"
| "succeeded ((org, Inr q) # tr) = q # succeeded tr"

fun failures :: "trace \<Rightarrow> error list" where
  "failures [] = []"
| "failures ((org, Inl e) # tr) = e # failures tr"
| "failures ((org, Inr q) # tr) = failures tr"

text \<open>The log record of a failed query, and the rate limit the loop ends with.\<close>

definition warn_record :: "error \<Rightarrow> logRecord" where
  "warn_record e =
     [(''level'', Str ''warn''),
      (''msg'', Str ''failed to execute organization query successfully''),
      (''err'', Err e)]"

definition final_rateLimit :: "organizationQuery list \<Rightarrow> rateLimit" where
  "final_rateLimit qs = last (zero_rateLimit # map RateLimit qs)"

definition cycle_metrics :: "'s OrganizationCollector \<Rightarrow> trace \<Rightarrow> Metric list" where
  "cycle_metrics c tr =
     concat (map (org_metrics c) (succeeded tr)) @
     (if failures tr = [] then rate_metrics c (final_rateLimit (succeeded tr)) else [])"

text \<open>Views of a sample: its metric family with its label values, and with its labels named.\<close>

definition sample_key :: "Metric \<Rightarrow> string \<times> string list" where
  "sample_key m = (fqName (desc m), labelValues m)"

definition sample_view :: "Metric \<Rightarrow> string \<times> (string \<times> string) list \<times> float64" where
  "sample_view m = (fqName (desc m), zip (variableLabels (desc m)) (labelValues m), val m)"

section \<open>The specification's description of a cycle\<close>

text \<open>
  The samples of one repository as the specification lists them: created timestamp, disk
  usage, forks, issues (open, closed), pull requests (open, closed, merged), pushed
  timestamp, stargazers, watchers; labelled with the organization login and the repository
  name, the state appended for issues and pull requests.
\<close>

definition spec_repo_samples :: "string \<Rightarrow> string \<Rightarrow> (string \<times> string list) list" where
  "spec_repo_samples login name =
     [(''github_repo_created'', [login, name]),
      (''github_repo_disk_usage_bytes'', [login, name]),
      (''github_repo_forks'', [login, name]),
      (''github_repo_issues'', [login, name, ''open'']),
      (''github_repo_issues'', [login, name, ''closed'']),
      (''github_repo_pull_requests'', [login, name, ''open'']),
      (''github_repo_pull_requests'', [login, name, ''closed'']),
      (''github_repo_pull_requests'', [login, name, ''merged'']),
      (''github_repo_pushed'', [login, name]),
      (''github_repo_stargazers'', [login, name]),
      (''github_repo_watchers'', [login, name])]"

definition spec_org_samples :: "organizationQuery \<Rightarrow> (string \<times> string list) list" where
  "spec_org_samples q =
     concat (map (\<lambda>repo. spec_repo_samples (Login (Organization q)) (Name repo))
       (Nodes (Repositories (Organization q))))"

definition spec_rate_samples :: "(string \<times> string list) list" where
  "spec_rate_samples =
     [(''github_rate_limit_limit'', []),
      (''github_rate_limit_remaining'', []),
      (''github_rate_limit_reset_seconds'', [])]"

text \<open>
  The values as the specification gives them: a timestamp is its Unix epoch seconds as a
  float, a count is its integer value.
\<close>

definition spec_timestamp :: "Time \<Rightarrow> real" where
  "spec_timestamp t = float64_of_int64 (Unix t)"

definition spec_count :: "int32 \<Rightarrow> real" where
  "spec_count n = real_of_int (sint n)"

definition spec_repo_values :: "repositoryNode \<Rightarrow> real list" where
  "spec_repo_values repo =
     [spec_timestamp (CreatedAt repo),
      spec_count (DiskUsage repo),
      spec_count (TotalCount (Forks repo)),
      spec_count (TotalCount (IssuesOpen repo)),
      spec_count (TotalCount (IssuesClosed repo)),
      spec_count (TotalCount (PullRequestsOpen repo)),
      spec_count (TotalCount (PullRequestsClosed repo)),
      spec_count (TotalCount (PullRequestsMerged repo)),
      spec_timestamp (PushedAt repo),
      spec_count (TotalCount (Stargazers repo)),
      spec_count (TotalCount (Watchers repo))]"

definition spec_org_values :: "organizationQuery \<Rightarrow> real list" where
  "spec_org_values q = concat (map spec_repo_values (Nodes (Repositories (Organization q))))"

definition spec_rate_values :: "rateLimit \<Rightarrow> real list" where
  "spec_rate_values rl =
     [spec_count (Limit rl), spec_count (Remaining rl), spec_timestamp (ResetAt rl)]"

text \<open>The label-name counts the specification gives per metric family.\<close>

definition spec_arity :: "(string \<times> nat) list" where
  "spec_arity =
     [(''github_repo_created'', 2),
      (''github_repo_disk_usage_bytes'', 2),
      (''github_repo_forks'', 2),
      (''github_repo_pushed'', 2),
      (''github_repo_stargazers'', 2),
      (''github_repo_watchers'', 2),
      (''github_repo_issues'', 3),
      (''github_repo_pull_requests'', 3),
      (''github_rate_limit_limit'', 0),
      (''github_rate_limit_remaining'', 0),
      (''github_rate_limit_reset_seconds'', 0)]"

section \<open>Example data\<close>

text \<open>
  A remote service that plays back a list of prepared answers, one per call, and a
  repository \<open>widget\<close> of the organization \<open>acme\<close>, created at Unix time 1500000000.
\<close>

definition scripted :: "(error + organizationQuery) list Client" where
  "scripted answers org =
     (case answers of
        [] \<Rightarrow> (Inl (QueryError ''no answer''), [])
      | r # rest \<Rightarrow> (r, rest))"

definition at_unix :: "int \<Rightarrow> Time" where
  "at_unix n = \<lparr>wall = 0, ext = word_of_int (n + 62135596800)\<rparr>"

definition widget :: repositoryNode where
  "widget =
     \<lparr>Name = ''widget'', DiskUsage = 42,
      CreatedAt = at_unix 1500000000, PushedAt = at_unix 1500000100,
      Stargazers = \<lparr>TotalCount = 11\<rparr>, Watchers = \<lparr>TotalCount = 2\<rparr>,
      Forks = \<lparr>TotalCount = 3\<rparr>,
      IssuesOpen = \<lparr>TotalCount = 5\<rparr>, IssuesClosed = \<lparr>TotalCount = 7\<rparr>,
      PullRequestsOpen = \<lparr>TotalCount = 1\<rparr>, PullRequestsClosed = \<lparr>TotalCount = 4\<rparr>,
      PullRequestsMerged = \<lparr>TotalCount = 9\<rparr>\<rparr>"

definition acme :: organizationQuery where
  "acme =
     \<lparr>Organization = \<lparr>Login = ''acme'', Repositories = \<lparr>Nodes = [widget]\<rparr>\<rparr>,
      RateLimit = \<lparr>Limit = 5000, Remaining = 4990, ResetAt = at_unix 1500003600\<rparr>\<rparr>"

definition globex :: organizationQuery where
  "globex =
     \<lparr>Organization = \<lparr>Login = ''globex'', Repositories = \<lparr>Nodes = []\<rparr>\<rparr>,
      RateLimit = \<lparr>Limit = 5000, Remaining = 4989, ResetAt = at_unix 1500003600\<rparr>\<rparr>"

definition world0 :: "(error + organizationQuery) list \<Rightarrow> (error + organizationQuery) list world" where
  "world0 answers = \<lparr>metrics = [], descs = [], logged = [], srv = answers, queries = []\<rparr>"

section \<open>Conversions\<close>

lemma float64_of_int32_exact: "float64_of_int32 x = real_of_int (sint x)"
proof -
  have "sint x < 2 ^ 31" "- (2 ^ 31) \<le> sint x"
    using sint_lt [of x] sint_ge [of x] by simp_all
  then have "\<bar>sint x\<bar> < 2 ^ 53" by simp
  then show ?thesis by (simp add: float64_of_int32_def round_float64_def)
qed

lemma float64_of_int64_exact:
  "\<bar>sint x\<bar> < 2 ^ 53 \<Longrightarrow> float64_of_int64 x = real_of_int (sint x)"
  by (simp add: float64_of_int64_def round_float64_def)

lemma Unix_zero_Time: "sint (Unix zero_Time) = - 62135596800"
  by (simp add: Unix_def sec_def zero_Time_def hasMonotonic_def internalToUnix_def
      unixToInternal_def secondsPerDay_def)

section \<open>The collector's descriptors\<close>

lemma fields_New:
  "client (NewOrganizationCollector cl orgs) = cl"
  "organizations (NewOrganizationCollector cl orgs) = orgs"
  by (simp_all add: NewOrganizationCollector_def)

lemma labels_New:
  "variableLabels (created (NewOrganizationCollector cl orgs)) = [''owner'', ''name'']"
  "variableLabels (diskUsage (NewOrganizationCollector cl orgs)) = [''owner'', ''name'']"
  "variableLabels (forks (NewOrganizationCollector cl orgs)) = [''owner'', ''name'']"
  "variableLabels (issues (NewOrganizationCollector cl orgs)) = [''owner'', ''name'', ''state'']"
  "variableLabels (pullRequests (NewOrganizationCollector cl orgs)) = [''owner'', ''name'', ''state'']"
  "variableLabels (pushed (NewOrganizationCollector cl orgs)) = [''onwer'', ''name'']"
  "variableLabels (stargazers (NewOrganizationCollector cl orgs)) = [''onwer'', ''name'']"
  "variableLabels (watchers (NewOrganizationCollector cl orgs)) = [''onwer'', ''name'']"
  "variableLabels (rateLimit (NewOrganizationCollector cl orgs)) = []"
  "variableLabels (rateLimitRemaining (NewOrganizationCollector cl orgs)) = []"
  "variableLabels (rateLimitReset (NewOrganizationCollector cl orgs)) = []"
  by (simp_all add: NewOrganizationCollector_def NewDesc_def)

lemma names_New:
  "fqName (created (NewOrganizationCollector cl orgs)) = ''github_repo_created''"
  "fqName (diskUsage (NewOrganizationCollector cl orgs)) = ''github_repo_disk_usage_bytes''"
  "fqName (forks (NewOrganizationCollector cl orgs)) = ''github_repo_forks''"
  "fqName (issues (NewOrganizationCollector cl orgs)) = ''github_repo_issues''"
  "fqName (pullRequests (NewOrganizationCollector cl orgs)) = ''github_repo_pull_requests''"
  "fqName (pushed (NewOrganizationCollector cl orgs)) = ''github_repo_pushed''"
  "fqName (stargazers (NewOrganizationCollector cl orgs)) = ''github_repo_stargazers''"
  "fqName (watchers (NewOrganizationCollector cl orgs)) = ''github_repo_watchers''"
  "fqName (rateLimit (NewOrganizationCollector cl orgs)) = ''github_rate_limit_limit''"
  "fqName (rateLimitRemaining (NewOrganizationCollector cl orgs)) = ''github_rate_limit_remaining''"
  "fqName (rateLimitReset (NewOrganizationCollector cl orgs)) = ''github_rate_limit_reset_seconds''"
  by (simp_all add: NewOrganizationCollector_def NewDesc_def BuildFQName_def namespace_def)

section \<open>Collect, statement by statement\<close>

lemma send_ok:
  "length (variableLabels d) = length lvs \<Longrightarrow>
   send d v lvs w = Inr (w\<lparr>metrics := metrics w @ [gauge d v lvs]\<rparr>)"
  by (simp add: send_def MustNewConstMetric_def gauge_def)

lemma collect_repo_ok:
  "collect_repo (NewOrganizationCollector cl orgs) q repo w =
   Inr (w\<lparr>metrics := metrics w @ repo_metrics (NewOrganizationCollector cl orgs) q repo\<rparr>)"
  by (simp add: collect_repo_def repo_metrics_def send_ok labels_New)

lemma collect_nodes_ok:
  "seq (map (collect_repo (NewOrganizationCollector cl orgs) q) nodes) w =
   Inr (w\<lparr>metrics := metrics w @
     concat (map (repo_metrics (NewOrganizationCollector cl orgs) q) nodes)\<rparr>)"
  by (induction nodes arbitrary: w) (simp_all add: collect_repo_ok)

lemma failures_exchange:
  "exchange cl s orgs = (tr, s') \<Longrightarrow> length (failures tr) \<le> 1"
  by (induction orgs arbitrary: s tr s') (auto split: prod.splits sum.splits)

lemma collect_orgs_exchange:
  "collect_orgs (NewOrganizationCollector cl orgs0) orgs rl w =
   Inr (case exchange cl (srv w) orgs of (tr, s') \<Rightarrow>
     (case failures tr of
        [] \<Rightarrow> Completed (last (rl # map RateLimit (succeeded tr)))
          (w\<lparr>metrics := metrics w @
                concat (map (org_metrics (NewOrganizationCollector cl orgs0)) (succeeded tr)),
             srv := s', queries := queries w @ tr\<rparr>)
      | e # es \<Rightarrow> Returned
          (w\<lparr>metrics := metrics w @
                concat (map (org_metrics (NewOrganizationCollector cl orgs0)) (succeeded tr)),
             logged := logged w @ [warn_record e],
             srv := s', queries := queries w @ tr\<rparr>)))"
proof (induction orgs arbitrary: rl w)
  case Nil
  show ?case by simp
next
  case (Cons org orgs)
  obtain r s1 where r: "cl (srv w) org = (r, s1)" by (cases "cl (srv w) org")
  show ?case
  proof (cases r)
    case (Inl e)
    with r show ?thesis
      by (simp add: Query_def fields_New level_Warn_Log_def warn_record_def)
  next
    case (Inr q)
    obtain tr s2 where t: "exchange cl s1 orgs = (tr, s2)" by (cases "exchange cl s1 orgs")
    from r Inr t show ?thesis
      by (simp add: Query_def fields_New collect_nodes_ok Cons.IH org_metrics_def
          split: list.splits)
  qed
qed

lemma Collect_exchange:
  "Collect (NewOrganizationCollector cl orgs) w =
   Inr (case exchange cl (srv w) orgs of (tr, s') \<Rightarrow>
     w\<lparr>metrics := metrics w @ cycle_metrics (NewOrganizationCollector cl orgs) tr,
       logged := logged w @ map warn_record (failures tr),
       srv := s', queries := queries w @ tr\<rparr>)"
proof -
  obtain tr s' where t: "exchange cl (srv w) orgs = (tr, s')"
    by (cases "exchange cl (srv w) orgs")
  show ?thesis
  proof (cases "failures tr")
    case Nil
    with t show ?thesis
      by (simp add: Collect_def fields_New collect_orgs_exchange send_ok labels_New
          cycle_metrics_def rate_metrics_def final_rateLimit_def)
  next
    case (Cons e es)
    have "es = []" using failures_exchange [OF t] Cons by simp
    with Cons t show ?thesis
      by (simp add: Collect_def fields_New collect_orgs_exchange cycle_metrics_def)
  qed
qed

section \<open>Traces of an exchange\<close>

lemma results_only:
  "map snd tr1 = map snd tr2 \<Longrightarrow> succeeded tr1 = succeeded tr2 \<and> failures tr1 = failures tr2"
proof (induction tr1 arbitrary: tr2)
  case Nil
  then show ?case by simp
next
  case (Cons a tr1)
  then obtain b tr2' where b: "tr2 = b # tr2'" "snd a = snd b" "map snd tr1 = map snd tr2'"
    by (cases tr2) auto
  with Cons.IH [of tr2'] show ?case
    by (cases a; cases b; cases "snd a") auto
qed

lemma all_succeed:
  assumes "map snd tr = map Inr qs"
  shows "succeeded tr = qs \<and> failures tr = []"
  using assms
proof (induction qs arbitrary: tr)
  case Nil
  then show ?case by simp
next
  case (Cons q qs)
  then obtain org tr' where "tr = (org, Inr q) # tr'" "map snd tr' = map Inr qs"
    by (cases tr) auto
  with Cons.IH [of tr'] show ?case by simp
qed

lemma one_fails:
  assumes "map snd tr = map Inr qs @ [Inl e]"
  shows "succeeded tr = qs \<and> failures tr = [e]"
  using assms
proof (induction qs arbitrary: tr)
  case Nil
  then obtain org where "tr = [(org, Inl e)]" by (cases tr) auto
  then show ?case by simp
next
  case (Cons q qs)
  then obtain org tr' where "tr = (org, Inr q) # tr'" "map snd tr' = map Inr qs @ [Inl e]"
    by (cases tr) auto
  with Cons.IH [of tr'] show ?case by simp
qed

lemma exchange_prefix:
  "exchange cl s orgs = (tr, s') \<Longrightarrow> map fst tr = take (length tr) orgs"
  by (induction orgs arbitrary: s tr s') (auto split: prod.splits sum.splits)

lemma keys_repo:
  "map sample_key (repo_metrics (NewOrganizationCollector cl orgs) q repo) =
   spec_repo_samples (Login (Organization q)) (Name repo)"
  by (simp add: repo_metrics_def spec_repo_samples_def sample_key_def gauge_def names_New)

lemma keys_org:
  "map sample_key (org_metrics (NewOrganizationCollector cl orgs) q) = spec_org_samples q"
  by (simp add: org_metrics_def spec_org_samples_def map_concat keys_repo comp_def)

lemma keys_rate:
  "map sample_key (rate_metrics (NewOrganizationCollector cl orgs) rl) = spec_rate_samples"
  by (simp add: rate_metrics_def spec_rate_samples_def sample_key_def gauge_def names_New)

lemma keys_cycle:
  "map sample_key (cycle_metrics (NewOrganizationCollector cl orgs) tr) =
   concat (map spec_org_samples (succeeded tr)) @
   (if failures tr = [] then spec_rate_samples else [])"
  by (simp add: cycle_metrics_def map_concat keys_org keys_rate comp_def)

lemma vals_repo:
  "map val (repo_metrics (NewOrganizationCollector cl orgs) q repo) = spec_repo_values repo"
  by (simp add: repo_metrics_def spec_repo_values_def gauge_def float64_of_int32_exact
      spec_count_def spec_timestamp_def)

lemma vals_org:
  "map val (org_metrics (NewOrganizationCollector cl orgs) q) = spec_org_values q"
  by (simp add: org_metrics_def spec_org_values_def map_concat vals_repo comp_def)

lemma vals_rate:
  "map val (rate_metrics (NewOrganizationCollector cl orgs) rl) = spec_rate_values rl"
  by (simp add: rate_metrics_def spec_rate_values_def gauge_def float64_of_int32_exact
      spec_count_def spec_timestamp_def)

lemma vals_cycle:
  "map val (cycle_metrics (NewOrganizationCollector cl orgs) tr) =
   concat (map spec_org_values (succeeded tr)) @
   (if failures tr = [] then spec_rate_values (final_rateLimit (succeeded tr)) else [])"
  by (simp add: cycle_metrics_def map_concat vals_org vals_rate comp_def)

lemma names_repo:
  "m \<in> set (repo_metrics (NewOrganizationCollector cl orgs) q repo) \<Longrightarrow>
   fqName (desc m) \<notin> {''github_rate_limit_limit'', ''github_rate_limit_remaining'',
     ''github_rate_limit_reset_seconds''}"
  by (auto simp add: repo_metrics_def gauge_def names_New)

lemma no_rate_in_orgs:
  "filter (\<lambda>m. fqName (desc m) \<in> {''github_rate_limit_limit'', ''github_rate_limit_remaining'',
       ''github_rate_limit_reset_seconds''})
     (concat (map (org_metrics (NewOrganizationCollector cl orgs)) qs)) = []"
proof -
  have "fqName (desc m) \<notin> {''github_rate_limit_limit'', ''github_rate_limit_remaining'',
       ''github_rate_limit_reset_seconds''}"
    if "m \<in> set (concat (map (org_metrics (NewOrganizationCollector cl orgs)) qs))" for m
  proof -
    from that obtain q repo where "m \<in> set (repo_metrics (NewOrganizationCollector cl orgs) q repo)"
      by (auto simp add: org_metrics_def)
    then show ?thesis by (rule names_repo)
  qed
  then show ?thesis unfolding filter_empty_conv by blast
qed

lemma length_org_metrics:
  "length (org_metrics c q) = 11 * length (Nodes (Repositories (Organization q)))"
proof -
  have "length (concat (map (repo_metrics c q) ns)) = 11 * length ns" for ns
    by (induction ns) (simp_all add: repo_metrics_def)
  then show ?thesis by (simp add: org_metrics_def)
qed

section \<open>Further facts for the claims\<close>

lemma Unix_widget: "sint (Unix (at_unix 1500000000)) = 1500000000"
  by (simp add: Unix_def sec_def at_unix_def hasMonotonic_def internalToUnix_def
      unixToInternal_def secondsPerDay_def)

lemma arity_repo:
  assumes "m \<in> set (repo_metrics (NewOrganizationCollector cl orgs) q repo)"
  shows "length (labelValues m) = length (variableLabels (desc m)) \<and>
     (fqName (desc m), length (labelValues m)) \<in> set spec_arity"
proof -
  have "list_all (\<lambda>m. length (labelValues m) = length (variableLabels (desc m)) \<and>
      (fqName (desc m), length (labelValues m)) \<in> set spec_arity)
    (repo_metrics (NewOrganizationCollector cl orgs) q repo)"
    by (simp add: repo_metrics_def gauge_def names_New labels_New spec_arity_def)
  with assms show ?thesis unfolding list_all_iff by blast
qed

lemma arity_rate:
  assumes "m \<in> set (rate_metrics (NewOrganizationCollector cl orgs) rl)"
  shows "length (labelValues m) = length (variableLabels (desc m)) \<and>
     (fqName (desc m), length (labelValues m)) \<in> set spec_arity"
proof -
  have "list_all (\<lambda>m. length (labelValues m) = length (variableLabels (desc m)) \<and>
      (fqName (desc m), length (labelValues m)) \<in> set spec_arity)
    (rate_metrics (NewOrganizationCollector cl orgs) rl)"
    by (simp add: rate_metrics_def gauge_def names_New labels_New spec_arity_def)
  with assms show ?thesis unfolding list_all_iff by blast
qed

lemma arity_cycle:
  assumes "m \<in> set (cycle_metrics (NewOrganizationCollector cl orgs) tr)"
  shows "length (labelValues m) = length (variableLabels (desc m)) \<and>
     (fqName (desc m), length (labelValues m)) \<in> set spec_arity"
proof -
  from assms consider
    (repo) q repo where "m \<in> set (repo_metrics (NewOrganizationCollector cl orgs) q repo)"
  | (rate) rl where "m \<in> set (rate_metrics (NewOrganizationCollector cl orgs) rl)"
    by (auto simp add: cycle_metrics_def org_metrics_def split: if_splits)
  then show ?thesis
  proof cases
    case repo
    then show ?thesis by (rule arity_repo)
  next
    case rate
    then show ?thesis by (rule arity_rate)
  qed
qed

lemma Collect_acme:
  "Collect (NewOrganizationCollector scripted [''acme'']) (world0 [Inr acme]) =
   Inr \<lparr>metrics = cycle_metrics (NewOrganizationCollector scripted [''acme'']) [(''acme'', Inr acme)],
     descs = [], logged = [], srv = [], queries = [(''acme'', Inr acme)]\<rparr>"
  by (simp add: Collect_exchange world0_def scripted_def)

lemma length_cycle_acme:
  "length (cycle_metrics c [(''acme'', Inr acme)]) = 14"
  by (simp add: cycle_metrics_def length_org_metrics rate_metrics_def acme_def)

lemma cycle_metrics_any_collector:
  "cycle_metrics (NewOrganizationCollector cl1 orgs1) tr =
   cycle_metrics (NewOrganizationCollector cl2 orgs2) tr"
proof -
  have r: "repo_metrics (NewOrganizationCollector cl1 orgs1) q =
      repo_metrics (NewOrganizationCollector cl2 orgs2) q" for q
    by (rule ext) (simp add: repo_metrics_def NewOrganizationCollector_def)
  have o: "org_metrics (NewOrganizationCollector cl1 orgs1) =
      org_metrics (NewOrganizationCollector cl2 orgs2)"
    by (rule ext) (simp only: org_metrics_def r)
  have l: "rate_metrics (NewOrganizationCollector cl1 orgs1) rl =
      rate_metrics (NewOrganizationCollector cl2 orgs2) rl" for rl
    by (simp add: rate_metrics_def NewOrganizationCollector_def)
  show ?thesis
    by (simp only: cycle_metrics_def o l)
qed

lemma Collect_new_part:
  assumes "Collect (NewOrganizationCollector cl orgs) w = Inr w'"
  shows "drop (length (metrics w)) (metrics w') =
     cycle_metrics (NewOrganizationCollector cl orgs) (drop (length (queries w)) (queries w'))"
proof -
  obtain tr s' where t: "exchange cl (srv w) orgs = (tr, s')"
    by (cases "exchange cl (srv w) orgs")
  from assms have "w' = w\<lparr>metrics := metrics w @ cycle_metrics (NewOrganizationCollector cl orgs) tr,
       logged := logged w @ map warn_record (failures tr),
       srv := s', queries := queries w @ tr\<rparr>"
    by (simp add: Collect_exchange t)
  then show ?thesis by simp
qed

lemma Unix_examples:
  "sint (Unix (at_unix 1500000100)) = 1500000100"
  "sint (Unix (at_unix 1500003600)) = 1500003600"
  by (simp_all add: Unix_def sec_def at_unix_def hasMonotonic_def internalToUnix_def
      unixToInternal_def secondsPerDay_def)

lemma spec_values_acme:
  assumes "spec_timestamp (at_unix 1500000000) = 1500000000"
    and "spec_timestamp (at_unix 1500000100) = 1500000100"
    and "spec_timestamp (at_unix 1500003600) = 1500003600"
  shows "spec_org_values acme = [1500000000, 42, 3, 5, 7, 1, 4, 9, 1500000100, 11, 2]"
    and "spec_rate_values (final_rateLimit [acme]) = [5000, 4990, 1500003600]"
  by (simp add: spec_org_values_def acme_def spec_repo_values_def widget_def spec_count_def assms)
    (simp add: spec_rate_values_def final_rateLimit_def acme_def spec_count_def assms)

section \<open>The claims\<close>

text \<open>
  C1. For every organization whose query succeeds, \<^verbatim>\<open>Collect\<close> sends for each repository
  node, in the order of the returned list, exactly eleven samples in the fixed order created,
  disk usage, forks, issues (open), issues (closed), pull requests (open), pull requests
  (closed), pull requests (merged), pushed, stargazers, watchers. The label values of a sample
  are the organization login and the repository name, with the state appended for issues and
  pull requests. Here \<open>tr\<close> is the trace of the calls of the cycle; the three rate-limit
  samples end the list when no call failed.
\<close>

theorem Collect_samples_in_order:
  "\<exists>w' tr M. Collect (NewOrganizationCollector cl orgs) w = Inr w' \<and>
     queries w' = queries w @ tr \<and>
     metrics w' = metrics w @ M \<and>
     map sample_key M =
       concat (map spec_org_samples (succeeded tr)) @
       (if failures tr = [] then spec_rate_samples else [])"
proof -
  obtain tr s' where t: "exchange cl (srv w) orgs = (tr, s')"
    by (cases "exchange cl (srv w) orgs")
  show ?thesis
    by (simp add: Collect_exchange t keys_cycle)
qed

text \<open>
  C2. If the query for the organization at position \<open>length qs + 1\<close> of the configured list
  fails with \<open>e\<close>, the queries before it having answered \<open>qs\<close>, then \<^verbatim>\<open>Collect\<close> returns
  normally (it does not panic), has sent exactly the samples of the organizations before the
  failed one, none of them a rate-limit sample, has logged one record of level warn that
  carries the error, and has made no call for any later organization.
\<close>

theorem Collect_aborts_on_failed_query:
  assumes "map snd (fst (exchange cl (srv w) orgs)) = map Inr qs @ [Inl e]"
  shows "\<exists>w'. Collect (NewOrganizationCollector cl orgs) w = Inr w' \<and>
     metrics w' = metrics w @ concat (map (org_metrics (NewOrganizationCollector cl orgs)) qs) \<and>
     filter (\<lambda>m. fqName (desc m) \<in> {''github_rate_limit_limit'', ''github_rate_limit_remaining'',
         ''github_rate_limit_reset_seconds''})
       (drop (length (metrics w)) (metrics w')) = [] \<and>
     logged w' = logged w @ [warn_record e] \<and>
     queries w' = queries w @ fst (exchange cl (srv w) orgs) \<and>
     map fst (fst (exchange cl (srv w) orgs)) = take (length qs + 1) orgs"
proof -
  obtain tr s' where t: "exchange cl (srv w) orgs = (tr, s')"
    by (cases "exchange cl (srv w) orgs")
  with assms have r: "map snd tr = map Inr qs @ [Inl e]" by simp
  then have sf: "succeeded tr = qs" "failures tr = [e]" using one_fails by blast+
  from r have "length (map snd tr) = length qs + 1" by simp
  then have l: "length tr = length qs + 1" by simp
  have p: "map fst tr = take (length qs + 1) orgs" using exchange_prefix [OF t] l by simp
  define w' where "w' = w\<lparr>metrics := metrics w @
      concat (map (org_metrics (NewOrganizationCollector cl orgs)) qs),
    logged := logged w @ [warn_record e], srv := s', queries := queries w @ tr\<rparr>"
  have c: "Collect (NewOrganizationCollector cl orgs) w = Inr w'"
    by (simp add: Collect_exchange t cycle_metrics_def sf w'_def)
  have m: "metrics w' = metrics w @ concat (map (org_metrics (NewOrganizationCollector cl orgs)) qs)"
    by (simp add: w'_def)
  have d: "drop (length (metrics w)) (metrics w') =
      concat (map (org_metrics (NewOrganizationCollector cl orgs)) qs)"
    by (simp add: m)
  have f: "filter (\<lambda>m. fqName (desc m) \<in> {''github_rate_limit_limit'',
         ''github_rate_limit_remaining'', ''github_rate_limit_reset_seconds''})
       (drop (length (metrics w)) (metrics w')) = []"
    unfolding d by (rule no_rate_in_orgs)
  have lq: "logged w' = logged w @ [warn_record e]"
    "queries w' = queries w @ fst (exchange cl (srv w) orgs)"
    by (simp_all add: w'_def t)
  have p': "map fst (fst (exchange cl (srv w) orgs)) = take (length qs + 1) orgs"
    using p t by simp
  from c m f lq p' show ?thesis by blast
qed

theorem Collect_aborts_on_failed_query_witness:
  "\<exists>w'. Collect (NewOrganizationCollector scripted [''acme'', ''globex'', ''initech''])
       (world0 [Inr acme, Inl (QueryError ''deadline exceeded''), Inr globex]) = Inr w' \<and>
     length (metrics w') = 11 \<and>
     logged w' = [warn_record (QueryError ''deadline exceeded'')] \<and>
     map fst (queries w') = [''acme'', ''globex'']"
proof -
  let ?w = "world0 [Inr acme, Inl (QueryError ''deadline exceeded''), Inr globex]"
  let ?orgs = "[''acme'', ''globex'', ''initech'']"
  have x: "fst (exchange scripted (srv ?w) ?orgs) =
       [(''acme'', Inr acme), (''globex'', Inl (QueryError ''deadline exceeded''))]"
    by (simp add: scripted_def world0_def)
  have h: "map snd (fst (exchange scripted (srv ?w) ?orgs)) =
      map Inr [acme] @ [Inl (QueryError ''deadline exceeded'')]"
    unfolding x by simp
  have n: "length (Nodes (Repositories (Organization acme))) = 1"
    by (simp add: acme_def)
  have m: "metrics ?w = []" "logged ?w = []" "queries ?w = []"
    by (simp_all add: world0_def)
  from Collect_aborts_on_failed_query [OF h] obtain w' where
    "Collect (NewOrganizationCollector scripted ?orgs) ?w = Inr w'"
    "metrics w' = metrics ?w @
       concat (map (org_metrics (NewOrganizationCollector scripted ?orgs)) [acme])"
    "logged w' = logged ?w @ [warn_record (QueryError ''deadline exceeded'')]"
    "queries w' = queries ?w @ fst (exchange scripted (srv ?w) ?orgs)"
    by blast
  then show ?thesis
    unfolding x by (simp add: length_org_metrics n m)
qed

text \<open>
  C3. When the only configured organization is answered with the login acme and the single
  repository widget (disk usage 42, 3 forks, 5 open and 7 closed issues, created at \<open>T1\<close>),
  the first five samples of the cycle are created = the Unix seconds of \<open>T1\<close> as a float,
  disk usage = 42, forks = 3, issues open = 5 and issues closed = 7, labelled owner = acme,
  name = widget and, for the issues, the state. The float is the number of seconds itself
  whenever that number is below \<open>2 ^ 53\<close> in absolute value.
\<close>

theorem Collect_acme_widget:
  assumes "cl (srv w) org = (Inr q, s')"
    and "Login (Organization q) = ''acme''"
    and "Nodes (Repositories (Organization q)) = [repo]"
    and "Name repo = ''widget''"
    and "DiskUsage repo = 42"
    and "TotalCount (Forks repo) = 3"
    and "TotalCount (IssuesOpen repo) = 5"
    and "TotalCount (IssuesClosed repo) = 7"
    and "CreatedAt repo = T1"
  shows "(\<exists>w' rest. Collect (NewOrganizationCollector cl [org]) w = Inr w' \<and>
     map sample_view (metrics w') = map sample_view (metrics w) @
       [(''github_repo_created'', [(''owner'', ''acme''), (''name'', ''widget'')],
           float64_of_int64 (Unix T1)),
        (''github_repo_disk_usage_bytes'', [(''owner'', ''acme''), (''name'', ''widget'')], 42),
        (''github_repo_forks'', [(''owner'', ''acme''), (''name'', ''widget'')], 3),
        (''github_repo_issues'',
           [(''owner'', ''acme''), (''name'', ''widget''), (''state'', ''open'')], 5),
        (''github_repo_issues'',
           [(''owner'', ''acme''), (''name'', ''widget''), (''state'', ''closed'')], 7)] @ rest) \<and>
     (\<bar>sint (Unix T1)\<bar> < 2 ^ 53 \<longrightarrow> float64_of_int64 (Unix T1) = real_of_int (sint (Unix T1)))"
proof -
  have x: "exchange cl (srv w) [org] = ([(org, Inr q)], s')"
    using assms(1) by simp
  have v: "map sample_view (take 5 (repo_metrics (NewOrganizationCollector cl [org]) q repo)) =
       [(''github_repo_created'', [(''owner'', ''acme''), (''name'', ''widget'')],
           float64_of_int64 (Unix T1)),
        (''github_repo_disk_usage_bytes'', [(''owner'', ''acme''), (''name'', ''widget'')], 42),
        (''github_repo_forks'', [(''owner'', ''acme''), (''name'', ''widget'')], 3),
        (''github_repo_issues'',
           [(''owner'', ''acme''), (''name'', ''widget''), (''state'', ''open'')], 5),
        (''github_repo_issues'',
           [(''owner'', ''acme''), (''name'', ''widget''), (''state'', ''closed'')], 7)]"
    using assms(2-)
    by (simp add: repo_metrics_def sample_view_def gauge_def names_New labels_New
        float64_of_int32_exact)
  define M where "M = repo_metrics (NewOrganizationCollector cl [org]) q repo"
  define R where "R = rate_metrics (NewOrganizationCollector cl [org]) (RateLimit q)"
  have c: "Collect (NewOrganizationCollector cl [org]) w =
      Inr (w\<lparr>metrics := metrics w @ M @ R, srv := s', queries := queries w @ [(org, Inr q)]\<rparr>)"
    using assms(3)
    by (simp add: Collect_exchange x cycle_metrics_def org_metrics_def final_rateLimit_def
        M_def R_def del: exchange.simps)
  have "M = take 5 M @ drop 5 M" by simp
  then have "map sample_view (metrics w @ M @ R) =
      map sample_view (metrics w) @ map sample_view (take 5 M) @ map sample_view (drop 5 M @ R)"
    by (metis map_append append_assoc)
  with c v show ?thesis
    by (auto simp add: M_def float64_of_int64_exact)
qed

theorem Collect_acme_widget_witness:
  "\<exists>w' rest. Collect (NewOrganizationCollector scripted [''acme'']) (world0 [Inr acme]) = Inr w' \<and>
     map sample_view (metrics w') =
       [(''github_repo_created'', [(''owner'', ''acme''), (''name'', ''widget'')], 1500000000),
        (''github_repo_disk_usage_bytes'', [(''owner'', ''acme''), (''name'', ''widget'')], 42),
        (''github_repo_forks'', [(''owner'', ''acme''), (''name'', ''widget'')], 3),
        (''github_repo_issues'',
           [(''owner'', ''acme''), (''name'', ''widget''), (''state'', ''open'')], 5),
        (''github_repo_issues'',
           [(''owner'', ''acme''), (''name'', ''widget''), (''state'', ''closed'')], 7)] @ rest"
proof -
  have h1: "scripted (srv (world0 [Inr acme])) ''acme'' = (Inr acme, [])"
    by (simp add: scripted_def world0_def)
  have h2: "Login (Organization acme) = ''acme''"
    and h3: "Nodes (Repositories (Organization acme)) = [widget]"
    by (simp_all add: acme_def)
  have h4: "Name widget = ''widget''" and h5: "DiskUsage widget = 42"
    and h6: "TotalCount (Forks widget) = 3" and h7: "TotalCount (IssuesOpen widget) = 5"
    and h8: "TotalCount (IssuesClosed widget) = 7"
    and h9: "CreatedAt widget = at_unix 1500000000"
    by (simp_all add: widget_def)
  have t: "float64_of_int64 (Unix (at_unix 1500000000)) = 1500000000"
    by (simp add: float64_of_int64_exact Unix_widget)
  have m: "metrics (world0 [Inr acme]) = []" by (simp add: world0_def)
  from Collect_acme_widget
    [where cl = scripted and w = "world0 [Inr acme]" and org = "''acme''",
      OF h1 h2 h3 h4 h5 h6 h7 h8 h9, THEN conjunct1]
  show ?thesis unfolding t m by simp
qed

text \<open>
  C4. \<^verbatim>\<open>Describe\<close> sends the eleven descriptors built by \<^verbatim>\<open>NewOrganizationCollector\<close>:
  created, disk usage, forks, issues, pull requests, pushed, stargazers, watchers, rate-limit
  limit, remaining and reset. It changes nothing else of the world: it makes no query. What it
  sends is the same for every world, client and organization list, hence before any
  \<^verbatim>\<open>Collect\<close> and at every repeated call.
\<close>

theorem Describe_fixed_descriptors:
  "Describe (NewOrganizationCollector cl orgs) w =
     w\<lparr>descs := descs w @
       [created (NewOrganizationCollector cl orgs), diskUsage (NewOrganizationCollector cl orgs),
        forks (NewOrganizationCollector cl orgs), issues (NewOrganizationCollector cl orgs),
        pullRequests (NewOrganizationCollector cl orgs), pushed (NewOrganizationCollector cl orgs),
        stargazers (NewOrganizationCollector cl orgs), watchers (NewOrganizationCollector cl orgs),
        rateLimit (NewOrganizationCollector cl orgs),
        rateLimitRemaining (NewOrganizationCollector cl orgs),
        rateLimitReset (NewOrganizationCollector cl orgs)]\<rparr> \<and>
   map fqName (drop (length (descs w)) (descs (Describe (NewOrganizationCollector cl orgs) w))) =
     [''github_repo_created'', ''github_repo_disk_usage_bytes'', ''github_repo_forks'',
      ''github_repo_issues'', ''github_repo_pull_requests'', ''github_repo_pushed'',
      ''github_repo_stargazers'', ''github_repo_watchers'', ''github_rate_limit_limit'',
      ''github_rate_limit_remaining'', ''github_rate_limit_reset_seconds''] \<and>
   drop (length (descs w')) (descs (Describe (NewOrganizationCollector cl' orgs') w')) =
     drop (length (descs w)) (descs (Describe (NewOrganizationCollector cl orgs) w)) \<and>
   descs (Describe (NewOrganizationCollector cl orgs) (Describe (NewOrganizationCollector cl orgs) w)) =
     descs (Describe (NewOrganizationCollector cl orgs) w) @
     drop (length (descs w)) (descs (Describe (NewOrganizationCollector cl orgs) w))"
proof -
  have d: "Describe c v = v\<lparr>descs := descs v @
       [created c, diskUsage c, forks c, issues c, pullRequests c, pushed c, stargazers c,
        watchers c, rateLimit c, rateLimitRemaining c, rateLimitReset c]\<rparr>" for c :: "'x OrganizationCollector" and v
    by (simp add: Describe_def)
  have e: "[created (NewOrganizationCollector cl' orgs'), diskUsage (NewOrganizationCollector cl' orgs'),
        forks (NewOrganizationCollector cl' orgs'), issues (NewOrganizationCollector cl' orgs'),
        pullRequests (NewOrganizationCollector cl' orgs'), pushed (NewOrganizationCollector cl' orgs'),
        stargazers (NewOrganizationCollector cl' orgs'), watchers (NewOrganizationCollector cl' orgs'),
        rateLimit (NewOrganizationCollector cl' orgs'),
        rateLimitRemaining (NewOrganizationCollector cl' orgs'),
        rateLimitReset (NewOrganizationCollector cl' orgs')] =
     [created (NewOrganizationCollector cl orgs), diskUsage (NewOrganizationCollector cl orgs),
        forks (NewOrganizationCollector cl orgs), issues (NewOrganizationCollector cl orgs),
        pullRequests (NewOrganizationCollector cl orgs), pushed (NewOrganizationCollector cl orgs),
        stargazers (NewOrganizationCollector cl orgs), watchers (NewOrganizationCollector cl orgs),
        rateLimit (NewOrganizationCollector cl orgs),
        rateLimitRemaining (NewOrganizationCollector cl orgs),
        rateLimitReset (NewOrganizationCollector cl orgs)]"
    by (simp add: NewOrganizationCollector_def)
  show ?thesis
    by (simp add: d names_New e)
qed

text \<open>
  C5. The value of every sample is the field of the query result, unscaled: a count is its
  integer value, a timestamp (created, pushed, rate-limit reset) is the float nearest to its
  Unix epoch seconds, which is that number of seconds whenever it is below \<open>2 ^ 53\<close> in
  absolute value.
\<close>

theorem sample_values_unscaled:
  "(\<exists>w' tr M. Collect (NewOrganizationCollector cl orgs) w = Inr w' \<and>
     queries w' = queries w @ tr \<and>
     metrics w' = metrics w @ M \<and>
     map val M =
       concat (map spec_org_values (succeeded tr)) @
       (if failures tr = [] then spec_rate_values (final_rateLimit (succeeded tr)) else [])) \<and>
   (\<forall>t. \<bar>sint (Unix t)\<bar> < 2 ^ 53 \<longrightarrow> spec_timestamp t = real_of_int (sint (Unix t)))"
proof -
  obtain tr s' where t: "exchange cl (srv w) orgs = (tr, s')"
    by (cases "exchange cl (srv w) orgs")
  have a: "\<exists>w' tr M. Collect (NewOrganizationCollector cl orgs) w = Inr w' \<and>
     queries w' = queries w @ tr \<and>
     metrics w' = metrics w @ M \<and>
     map val M =
       concat (map spec_org_values (succeeded tr)) @
       (if failures tr = [] then spec_rate_values (final_rateLimit (succeeded tr)) else [])"
    by (simp add: Collect_exchange t vals_cycle)
  have b: "spec_timestamp t = real_of_int (sint (Unix t))" if "\<bar>sint (Unix t)\<bar> < 2 ^ 53" for t
    unfolding spec_timestamp_def using that by (rule float64_of_int64_exact)
  from a b show ?thesis by blast
qed

theorem sample_values_unscaled_witness:
  "\<exists>w'. Collect (NewOrganizationCollector scripted [''acme'']) (world0 [Inr acme]) = Inr w' \<and>
     map val (metrics w') =
       [1500000000, 42, 3, 5, 7, 1, 4, 9, 1500000100, 11, 2, 5000, 4990, 1500003600]"
proof -
  let ?c = "NewOrganizationCollector scripted [''acme'']"
  let ?w = "world0 [Inr acme]"
  note inst = sample_values_unscaled [of scripted "[''acme'']" ?w]
  have ex: "spec_timestamp t = real_of_int (sint (Unix t))"
    if "\<bar>sint (Unix t)\<bar> < 2 ^ 53" for t
    using inst [THEN conjunct2] that by (elim allE impE) assumption+
  have t1: "spec_timestamp (at_unix 1500000000) = 1500000000"
    using ex [of "at_unix 1500000000"] unfolding Unix_widget by simp
  have t2: "spec_timestamp (at_unix 1500000100) = 1500000100"
    using ex [of "at_unix 1500000100"] unfolding Unix_examples by simp
  have t3: "spec_timestamp (at_unix 1500003600) = 1500003600"
    using ex [of "at_unix 1500003600"] unfolding Unix_examples by simp
  from inst [THEN conjunct1] obtain w' tr M where
    c: "Collect ?c ?w = Inr w'" and q: "queries w' = queries ?w @ tr"
    and m: "metrics w' = metrics ?w @ M"
    and v: "map val M = concat (map spec_org_values (succeeded tr)) @
       (if failures tr = [] then spec_rate_values (final_rateLimit (succeeded tr)) else [])"
    by blast
  from c have w': "w' = \<lparr>metrics = cycle_metrics ?c [(''acme'', Inr acme)],
     descs = [], logged = [], srv = [], queries = [(''acme'', Inr acme)]\<rparr>"
    unfolding Collect_acme by simp
  have e: "metrics ?w = []" "queries ?w = []" by (simp_all add: world0_def)
  have "queries w' = [(''acme'', Inr acme)]" unfolding w' by simp
  with q have tr: "tr = [(''acme'', Inr acme)]" unfolding e by simp
  from m have M: "metrics w' = M" unfolding e by simp
  have sf: "succeeded tr = [acme]" "failures tr = []" unfolding tr by simp_all
  have "map val M =
       [1500000000, 42, 3, 5, 7, 1, 4, 9, 1500000100, 11, 2, 5000, 4990, 1500003600]"
    unfolding v sf by (simp add: spec_values_acme [OF t1 t2 t3])
  then have "map val (metrics w') =
       [1500000000, 42, 3, 5, 7, 1, 4, 9, 1500000100, 11, 2, 5000, 4990, 1500003600]"
    unfolding M .
  with c show ?thesis by (intro exI [of _ w'] conjI)
qed

text \<open>
  C6. Whatever the queries answer, \<^verbatim>\<open>Collect\<close> does not panic and every sample it sends
  carries as many label values as its descriptor declares label names: two for created, disk
  usage, forks, pushed, stargazers and watchers, three for issues and pull requests, none for
  the three rate-limit gauges.
\<close>

theorem label_values_match_label_names:
  "\<exists>w' M. Collect (NewOrganizationCollector cl orgs) w = Inr w' \<and>
     metrics w' = metrics w @ M \<and>
     (\<forall>m \<in> set M. length (labelValues m) = length (variableLabels (desc m)) \<and>
        (fqName (desc m), length (labelValues m)) \<in> set spec_arity)"
proof -
  obtain tr s' where t: "exchange cl (srv w) orgs = (tr, s')"
    by (cases "exchange cl (srv w) orgs")
  define w' where "w' = w\<lparr>metrics := metrics w @ cycle_metrics (NewOrganizationCollector cl orgs) tr,
       logged := logged w @ map warn_record (failures tr),
       srv := s', queries := queries w @ tr\<rparr>"
  have "Collect (NewOrganizationCollector cl orgs) w = Inr w'"
    by (simp add: Collect_exchange t w'_def)
  moreover have "metrics w' = metrics w @ cycle_metrics (NewOrganizationCollector cl orgs) tr"
    by (simp add: w'_def)
  ultimately show ?thesis using arity_cycle by blast
qed

theorem label_values_match_label_names_witness:
  "\<exists>w' M. Collect (NewOrganizationCollector scripted [''acme'']) (world0 [Inr acme]) = Inr w' \<and>
     metrics w' = M \<and> length M = 14 \<and>
     (\<forall>m \<in> set M. length (labelValues m) = length (variableLabels (desc m)) \<and>
        (fqName (desc m), length (labelValues m)) \<in> set spec_arity)"
proof -
  from label_values_match_label_names [of scripted "[''acme'']" "world0 [Inr acme]"]
  obtain w' M where c: "Collect (NewOrganizationCollector scripted [''acme'']) (world0 [Inr acme]) = Inr w'"
    and m: "metrics w' = metrics (world0 [Inr acme]) @ M"
    and a: "\<forall>m \<in> set M. length (labelValues m) = length (variableLabels (desc m)) \<and>
        (fqName (desc m), length (labelValues m)) \<in> set spec_arity"
    by blast
  have e: "metrics (world0 [Inr acme]) = []" by (simp add: world0_def)
  from m e have m': "metrics w' = M" by simp
  from c have "w' = \<lparr>metrics = cycle_metrics (NewOrganizationCollector scripted [''acme'']) [(''acme'', Inr acme)],
     descs = [], logged = [], srv = [], queries = [(''acme'', Inr acme)]\<rparr>"
    unfolding Collect_acme by simp
  then have "metrics w' = cycle_metrics (NewOrganizationCollector scripted [''acme'']) [(''acme'', Inr acme)]"
    by simp
  then have "length (metrics w') = 14" by (simp only: length_cycle_acme)
  then have l: "length M = 14" using m' by simp
  from c m' l a show ?thesis by blast
qed

text \<open>
  C7. When all of the \<open>N \<ge> 1\<close> configured organizations are queried successfully, with
  results \<open>qs\<close>, \<^verbatim>\<open>Collect\<close> sends after all repository samples exactly three gauges
  without labels: the limit, the remaining calls and the reset time in Unix epoch seconds of
  the rate limit of the last result; the rate limits of the earlier results are overwritten.
\<close>

theorem rate_limit_of_last_organization:
  assumes "orgs \<noteq> []"
    and "length qs = length orgs"
    and "map snd (fst (exchange cl (srv w) orgs)) = map Inr qs"
  shows "\<exists>w'. Collect (NewOrganizationCollector cl orgs) w = Inr w' \<and>
     metrics w' = metrics w @
       concat (map (org_metrics (NewOrganizationCollector cl orgs)) qs) @
       [\<lparr>desc = rateLimit (NewOrganizationCollector cl orgs), valType = GaugeValue,
          val = real_of_int (sint (Limit (RateLimit (last qs)))), labelValues = []\<rparr>,
        \<lparr>desc = rateLimitRemaining (NewOrganizationCollector cl orgs), valType = GaugeValue,
          val = real_of_int (sint (Remaining (RateLimit (last qs)))), labelValues = []\<rparr>,
        \<lparr>desc = rateLimitReset (NewOrganizationCollector cl orgs), valType = GaugeValue,
          val = float64_of_int64 (Unix (ResetAt (RateLimit (last qs)))), labelValues = []\<rparr>] \<and>
     map fst (queries w') = map fst (queries w) @ orgs"
proof -
  obtain tr s' where t: "exchange cl (srv w) orgs = (tr, s')"
    by (cases "exchange cl (srv w) orgs")
  with assms(3) have r: "map snd tr = map Inr qs" by simp
  then have sf: "succeeded tr = qs" "failures tr = []" using all_succeed by blast+
  from r have "length (map snd tr) = length qs" by simp
  then have l: "length tr = length orgs" using assms(2) by simp
  have p: "map fst tr = orgs" using exchange_prefix [OF t] l by simp
  from assms(1,2) have ne: "qs \<noteq> []" by auto
  then have f: "final_rateLimit qs = RateLimit (last qs)"
    by (simp add: final_rateLimit_def last_map)
  define w' where "w' = w\<lparr>metrics := metrics w @ cycle_metrics (NewOrganizationCollector cl orgs) tr,
       logged := logged w @ map warn_record (failures tr),
       srv := s', queries := queries w @ tr\<rparr>"
  have c: "Collect (NewOrganizationCollector cl orgs) w = Inr w'"
    by (simp add: Collect_exchange t w'_def)
  have m: "metrics w' = metrics w @
       concat (map (org_metrics (NewOrganizationCollector cl orgs)) qs) @
       [\<lparr>desc = rateLimit (NewOrganizationCollector cl orgs), valType = GaugeValue,
          val = real_of_int (sint (Limit (RateLimit (last qs)))), labelValues = []\<rparr>,
        \<lparr>desc = rateLimitRemaining (NewOrganizationCollector cl orgs), valType = GaugeValue,
          val = real_of_int (sint (Remaining (RateLimit (last qs)))), labelValues = []\<rparr>,
        \<lparr>desc = rateLimitReset (NewOrganizationCollector cl orgs), valType = GaugeValue,
          val = float64_of_int64 (Unix (ResetAt (RateLimit (last qs)))), labelValues = []\<rparr>]"
    by (simp add: w'_def cycle_metrics_def sf f rate_metrics_def gauge_def float64_of_int32_exact)
  have q: "map fst (queries w') = map fst (queries w) @ orgs"
    by (simp add: w'_def p)
  from c m q show ?thesis by blast
qed

theorem rate_limit_of_last_organization_witness:
  "\<exists>w'. Collect (NewOrganizationCollector scripted [''acme'', ''globex''])
       (world0 [Inr acme, Inr globex]) = Inr w' \<and>
     map sample_view (drop 11 (metrics w')) =
       [(''github_rate_limit_limit'', [], 5000),
        (''github_rate_limit_remaining'', [], 4989),
        (''github_rate_limit_reset_seconds'', [], 1500003600)]"
proof -
  let ?w = "world0 [Inr acme, Inr globex]"
  let ?orgs = "[''acme'', ''globex'']"
  have x: "fst (exchange scripted (srv ?w) ?orgs) = [(''acme'', Inr acme), (''globex'', Inr globex)]"
    by (simp add: scripted_def world0_def)
  have h1: "?orgs \<noteq> []" by simp
  have h2: "length [acme, globex] = length ?orgs" by simp
  have h3: "map snd (fst (exchange scripted (srv ?w) ?orgs)) = map Inr [acme, globex]"
    unfolding x by simp
  have e: "metrics ?w = []" by (simp add: world0_def)
  have n: "length (org_metrics c acme) = 11" "org_metrics c globex = []"
    for c :: "'x OrganizationCollector"
    by (simp add: length_org_metrics acme_def) (simp add: org_metrics_def globex_def)
  have u: "sint (Unix (at_unix 1500003600)) = 1500003600"
    by (simp add: Unix_def sec_def at_unix_def hasMonotonic_def internalToUnix_def
      unixToInternal_def secondsPerDay_def)
  have g: "Limit (RateLimit globex) = 5000" "Remaining (RateLimit globex) = 4989"
    "float64_of_int64 (Unix (ResetAt (RateLimit globex))) = 1500003600"
    by (simp_all add: globex_def float64_of_int64_exact u)
  from rate_limit_of_last_organization [OF h1 h2 h3]
  show ?thesis
    unfolding e by (auto simp add: n g sample_view_def names_New labels_New)
qed

text \<open>
  C8. The samples a cycle sends depend only on the results of that cycle's queries: two
  cycles, of any two collectors in any two worlds (whatever was sent, logged or queried
  before), that receive the same results send the same samples. The value sent for a
  timestamp depends only on the instant: two times with the same seconds give the same value.
\<close>

theorem samples_from_cycle_results_only:
  fixes cl1 :: "'s Client" and cl2 :: "'t Client"
  assumes "Collect (NewOrganizationCollector cl1 orgs1) w1 = Inr w1'"
    and "Collect (NewOrganizationCollector cl2 orgs2) w2 = Inr w2'"
    and "map snd (drop (length (queries w1)) (queries w1')) =
         map snd (drop (length (queries w2)) (queries w2'))"
  shows "drop (length (metrics w1)) (metrics w1') = drop (length (metrics w2)) (metrics w2') \<and>
     (\<forall>t1 t2. sec t1 = sec t2 \<longrightarrow>
        float64_of_int64 (Unix t1) = float64_of_int64 (Unix t2))"
proof -
  let ?tr1 = "drop (length (queries w1)) (queries w1')"
  let ?tr2 = "drop (length (queries w2)) (queries w2')"
  from assms(3) have sf: "succeeded ?tr1 = succeeded ?tr2" "failures ?tr1 = failures ?tr2"
    using results_only by blast+
  have "cycle_metrics (NewOrganizationCollector cl1 orgs1) ?tr1 =
      cycle_metrics (NewOrganizationCollector cl1 orgs1) ?tr2"
    by (simp add: cycle_metrics_def sf)
  also have "\<dots> = cycle_metrics (NewOrganizationCollector cl2 orgs2) ?tr2"
    by (rule cycle_metrics_any_collector)
  finally have "drop (length (metrics w1)) (metrics w1') = drop (length (metrics w2)) (metrics w2')"
    by (simp add: Collect_new_part [OF assms(1)] Collect_new_part [OF assms(2)])
  then show ?thesis by (simp add: Unix_def)
qed

theorem samples_from_cycle_results_only_witness:
  "\<exists>w1 w2. Collect (NewOrganizationCollector scripted [''acme'']) (world0 [Inr acme, Inr acme]) = Inr w1 \<and>
     Collect (NewOrganizationCollector scripted [''acme'']) w1 = Inr w2 \<and>
     length (metrics w1) = 14 \<and>
     drop (length (metrics w1)) (metrics w2) = metrics w1"
proof -
  let ?c = "NewOrganizationCollector scripted [''acme'']"
  let ?M = "cycle_metrics ?c [(''acme'', Inr acme)]"
  let ?w0 = "world0 [Inr acme, Inr acme]"
  let ?w1 = "\<lparr>metrics = ?M, descs = [], logged = [],
     srv = [Inr acme :: error + organizationQuery],
     queries = [(''acme'', Inr acme)]\<rparr>"
  let ?w2 = "\<lparr>metrics = ?M @ ?M, descs = [], logged = [],
     srv = [] :: (error + organizationQuery) list,
     queries = [(''acme'', Inr acme), (''acme'', Inr acme)]\<rparr>"
  have c1: "Collect ?c ?w0 = Inr ?w1"
    by (simp add: Collect_exchange world0_def scripted_def)
  have c2: "Collect ?c ?w1 = Inr ?w2"
    by (simp add: Collect_exchange scripted_def)
  have h: "map snd (drop (length (queries ?w0)) (queries ?w1)) =
         map snd (drop (length (queries ?w1)) (queries ?w2))"
    by (simp add: world0_def)
  have e: "metrics ?w0 = []" by (simp add: world0_def)
  have "drop (length (metrics ?w0)) (metrics ?w1) = drop (length (metrics ?w1)) (metrics ?w2)"
    using samples_from_cycle_results_only [OF c1 c2 h, THEN conjunct1] .
  then have "drop (length (metrics ?w1)) (metrics ?w2) = metrics ?w1"
    unfolding e by simp
  moreover have "length (metrics ?w1) = 14"
    by (simp add: length_cycle_acme)
  ultimately show ?thesis using c1 c2 by blast
qed

text \<open>
  C9. With an empty list of organizations \<^verbatim>\<open>Collect\<close> queries nothing and logs nothing, and
  sends exactly the three rate-limit gauges of the zero-valued rate limit: limit 0, remaining
  0 and, for the reset, the Unix seconds of the zero time, which is -62135596800.
\<close>

theorem Collect_no_organizations:
  "Collect (NewOrganizationCollector cl []) w =
     Inr (w\<lparr>metrics := metrics w @
       [\<lparr>desc = rateLimit (NewOrganizationCollector cl []), valType = GaugeValue,
          val = 0, labelValues = []\<rparr>,
        \<lparr>desc = rateLimitRemaining (NewOrganizationCollector cl []), valType = GaugeValue,
          val = 0, labelValues = []\<rparr>,
        \<lparr>desc = rateLimitReset (NewOrganizationCollector cl []), valType = GaugeValue,
          val = real_of_int (sint (Unix zero_Time)), labelValues = []\<rparr>]\<rparr>) \<and>
   sint (Unix zero_Time) = - 62135596800"
proof -
  have z: "float64_of_int64 (Unix zero_Time) = real_of_int (sint (Unix zero_Time))"
    by (rule float64_of_int64_exact) (simp add: Unix_zero_Time)
  have "Collect (NewOrganizationCollector cl []) w =
      Inr (w\<lparr>metrics := metrics w @ rate_metrics (NewOrganizationCollector cl []) zero_rateLimit\<rparr>)"
    by (simp add: Collect_exchange cycle_metrics_def final_rateLimit_def)
  moreover have "rate_metrics (NewOrganizationCollector cl []) zero_rateLimit =
       [\<lparr>desc = rateLimit (NewOrganizationCollector cl []), valType = GaugeValue,
          val = 0, labelValues = []\<rparr>,
        \<lparr>desc = rateLimitRemaining (NewOrganizationCollector cl []), valType = GaugeValue,
          val = 0, labelValues = []\<rparr>,
        \<lparr>desc = rateLimitReset (NewOrganizationCollector cl []), valType = GaugeValue,
          val = real_of_int (sint (Unix zero_Time)), labelValues = []\<rparr>]"
    by (simp add: rate_metrics_def gauge_def zero_rateLimit_def float64_of_int32_exact z)
  ultimately show ?thesis by (simp add: Unix_zero_Time)
qed

text \<open>
  C10. The descriptors of pushed, stargazers and watchers are built with the label names
  onwer and name, those of created, disk usage and forks with owner and name: the first label
  name is not the same in the six two-label metric families.
\<close>

theorem owner_label_misspelled:
  "variableLabels (pushed (NewOrganizationCollector cl orgs)) = [''onwer'', ''name''] \<and>
   variableLabels (stargazers (NewOrganizationCollector cl orgs)) = [''onwer'', ''name''] \<and>
   variableLabels (watchers (NewOrganizationCollector cl orgs)) = [''onwer'', ''name''] \<and>
   variableLabels (created (NewOrganizationCollector cl orgs)) = [''owner'', ''name''] \<and>
   variableLabels (diskUsage (NewOrganizationCollector cl orgs)) = [''owner'', ''name''] \<and>
   variableLabels (forks (NewOrganizationCollector cl orgs)) = [''owner'', ''name''] \<and>
   hd (variableLabels (pushed (NewOrganizationCollector cl orgs))) \<noteq>
     hd (variableLabels (created (NewOrganizationCollector cl orgs)))"
  by (simp add: labels_New)

end
